theory Spec2Isabelle
  imports Main "HOL-Library.List_Lexorder"
begin

section \<open>Strings and values of the client\<close>

text \<open>
  A JavaScript string is the list of its UTF-16 code units. Identifiers, names, message
  texts and ISO timestamps are all values of this one type, as they are all \<open>string\<close>
  in the TypeScript sources. \<open>js\<close> writes a literal.
\<close>

type_synonym js_string = "nat list"

definition js :: "string \<Rightarrow> js_string" where
  "js s = map of_char s"

text \<open>
  \<open>String.prototype.trim\<close> strips WhiteSpace and LineTerminator code points from both
  ends: TAB, LF, VT, FF, CR, SP, NBSP, U+1680, U+2000..U+200A, U+2028, U+2029, U+202F,
  U+205F, U+3000 and U+FEFF.
\<close>

definition is_white_space :: "nat \<Rightarrow> bool" where
  "is_white_space c \<longleftrightarrow>
     c \<in> set [9, 10, 11, 12, 13, 32, 160, 5760, 8232, 8233, 8239, 8287, 12288, 65279]
     \<or> (8192 \<le> c \<and> c \<le> 8202)"

definition trim :: "js_string \<Rightarrow> js_string" where
  "trim s = rev (dropWhile is_white_space (rev (dropWhile is_white_space s)))"

text \<open>
  Truthiness of a possibly undefined string (\<open>!conversationId\<close>, \<open>a || b\<close>):
  \<open>undefined\<close> and the empty string are falsy.
\<close>

definition truthy :: "js_string option \<Rightarrow> bool" where
  "truthy v = (case v of None \<Rightarrow> False | Some s \<Rightarrow> s \<noteq> [])"

text \<open>
  What a request to the backing platform resolves to: \<open>{ data, error }\<close>, each of
  which may be null.
\<close>

record 'a response =
  resp_data :: "'a option"
  resp_error :: "js_string option"

section \<open>ChatContainer: the message stream of the open conversation\<close>

text \<open>The author summary joined to a message: \<open>{ id, email, full_name? }\<close>.\<close>

record profile =
  profile_id :: js_string
  profile_email :: js_string
  profile_full_name :: "js_string option"

text \<open>The type \<open>Message\<close> of ChatContainer.\<close>

record message =
  msg_id :: js_string
  msg_conversation_id :: js_string
  msg_user_id :: js_string
  msg_content :: js_string
  msg_created_at :: js_string
  msg_user :: "profile option"

text \<open>
  A row as the history query returns it: the relation \<open>user:profiles(...)\<close> arrives as
  an array (or null), from which \<open>fetchMessages\<close> takes the first element.
\<close>

record message_row =
  row_id :: js_string
  row_conversation_id :: js_string
  row_user_id :: js_string
  row_content :: js_string
  row_created_at :: js_string
  row_user :: "profile list option"

text \<open>The component's state (its \<open>useState\<close> cells).\<close>

record chat_container =
  messages :: "message list"
  newMessage :: js_string
  loading :: bool
  conversationName :: js_string
  typingUsers :: "js_string list"

definition initial_container :: chat_container where
  "initial_container =
     \<lparr>messages = [], newMessage = [], loading = False, conversationName = [],
      typingUsers = []\<rparr>"

definition transform_row :: "message_row \<Rightarrow> message" where
  "transform_row r =
     \<lparr>msg_id = row_id r, msg_conversation_id = row_conversation_id r,
      msg_user_id = row_user_id r, msg_content = row_content r,
      msg_created_at = row_created_at r,
      msg_user = (case row_user r of
                    None \<Rightarrow> None
                  | Some [] \<Rightarrow> None
                  | Some (p # _) \<Rightarrow> Some p)\<rparr>"

text \<open>
  \<open>fetchMessages\<close>, in the two parts its \<open>await\<close> separates. The first part returns
  at once without a conversation (no query is issued) and otherwise sets the loading
  flag. The second part runs when the query resolves, on the state the component has by
  then: on an error it only logs; without an error it stores the transformed rows
  (\<open>data?.map(...) || []\<close>). The flag is cleared either way.
\<close>

definition fetchMessages_begin :: "js_string option \<Rightarrow> chat_container \<Rightarrow> chat_container option" where
  "fetchMessages_begin conversationId st =
     (if \<not> truthy conversationId then None else Some (st\<lparr>loading := True\<rparr>))"

definition fetchMessages_resume ::
  "message_row list response \<Rightarrow> chat_container \<Rightarrow> chat_container" where
  "fetchMessages_resume resp st =
     (let st2 = (case resp_error resp of
                   Some e \<Rightarrow> st
                 | None \<Rightarrow>
                     st\<lparr>messages :=
                       (case resp_data resp of
                          None \<Rightarrow> []
                        | Some rows \<Rightarrow> map transform_row rows)\<rparr>)
      in st2\<lparr>loading := False\<rparr>)"

text \<open>
  \<open>fetchMessageWithUser\<close>, the callback of the INSERT subscription: looks the author
  up (\<open>pdata\<close> is what the lookup returned) and appends the message.
\<close>

definition fetchMessageWithUser ::
  "profile option \<Rightarrow> message \<Rightarrow> chat_container \<Rightarrow> chat_container" where
  "fetchMessageWithUser pdata m st =
     (case pdata of
        Some d \<Rightarrow> st\<lparr>messages := messages st @ [m\<lparr>msg_user := Some d\<rparr>]\<rparr>
      | None \<Rightarrow> st\<lparr>messages := messages st @ [m]\<rparr>)"

text \<open>
  The INSERT subscription. Its callback calls \<open>fetchMessageWithUser\<close> without awaiting
  it, so a delivered event only starts the author lookup; the message is appended when
  that lookup resolves, and the lookups of different events may resolve in any order.
  \<open>lookups\<close> holds the messages whose lookup is pending, in delivery order; a step is
  the delivery of an event or the resolution of the pending lookup at a position.
\<close>

record live_stream =
  shown :: chat_container
  lookups :: "message list"






text \<open>
  \<open>handleSendMessage\<close>. \<open>messageId\<close> is what \<open>uuidv4()\<close> returned, \<open>now\<close> what
  \<open>new Date().toISOString()\<close> returned. The part before the \<open>await\<close> either returns
  at once (blank text, no conversation) or appends the new record and clears the input;
  the part after it filters the record out again when the insert reported an error.
\<close>

definition newMessageObj ::
  "js_string \<Rightarrow> js_string \<Rightarrow> js_string \<Rightarrow> js_string \<Rightarrow> js_string \<Rightarrow> message" where
  "newMessageObj userId conversationId messageId now txt =
     \<lparr>msg_id = messageId, msg_conversation_id = conversationId, msg_user_id = userId,
      msg_content = txt, msg_created_at = now, msg_user = None\<rparr>"

definition send_optimistic ::
  "js_string \<Rightarrow> js_string option \<Rightarrow> js_string \<Rightarrow> js_string \<Rightarrow> chat_container
     \<Rightarrow> chat_container option" where
  "send_optimistic userId conversationId messageId now st =
     (if trim (newMessage st) = [] then None
      else case conversationId of
        None \<Rightarrow> None
      | Some cid \<Rightarrow>
          if cid = [] then None
          else Some (st\<lparr>messages := messages st @
                          [newMessageObj userId cid messageId now (newMessage st)],
                        newMessage := []\<rparr>))"

definition send_settle :: "bool \<Rightarrow> js_string \<Rightarrow> chat_container \<Rightarrow> chat_container" where
  "send_settle persist_error messageId st =
     (if persist_error
      then st\<lparr>messages := filter (\<lambda>msg. msg_id msg \<noteq> messageId) (messages st)\<rparr>
      else st)"

definition handleSendMessage ::
  "js_string \<Rightarrow> js_string option \<Rightarrow> js_string \<Rightarrow> js_string \<Rightarrow> bool \<Rightarrow> chat_container
     \<Rightarrow> chat_container" where
  "handleSendMessage userId conversationId messageId now persist_error st =
     (case send_optimistic userId conversationId messageId now st of
        None \<Rightarrow> st
      | Some st1 \<Rightarrow> send_settle persist_error messageId st1)"

text \<open>What the message pane renders, by the component's own case distinction.\<close>

datatype view = SelectConversation | Spinner | NoMessagesYet | MessageList "message list"

definition render :: "js_string option \<Rightarrow> chat_container \<Rightarrow> view" where
  "render conversationId st =
     (if \<not> truthy conversationId then SelectConversation
      else if loading st then Spinner
      else if messages st = [] then NoMessagesYet
      else MessageList (messages st))"


section \<open>The typing indicator and its timers\<close>

text \<open>The two state updaters the typing subscription passes to \<open>setTypingUsers\<close>.\<close>

definition typing_add :: "js_string \<Rightarrow> chat_container \<Rightarrow> chat_container" where
  "typing_add u st =
     st\<lparr>typingUsers := (if u \<notin> set (typingUsers st) then typingUsers st @ [u]
                          else typingUsers st)\<rparr>"

definition typing_remove :: "js_string \<Rightarrow> chat_container \<Rightarrow> chat_container" where
  "typing_remove u st = st\<lparr>typingUsers := filter (\<lambda>i. i \<noteq> u) (typingUsers st)\<rparr>"

text \<open>
  The event loop around the component: a clock in milliseconds and the pending
  \<open>setTimeout\<close> callbacks, each with the time it is due and the user its closure
  removes. A timer fires when the clock reaches its due time.
\<close>

record event_loop =
  clock :: nat
  timers :: "(nat \<times> js_string) list"
  ui :: chat_container

definition due :: "nat \<Rightarrow> nat \<times> js_string \<Rightarrow> bool" where
  "due t tm \<longleftrightarrow> fst tm \<le> t"

definition advance :: "nat \<Rightarrow> event_loop \<Rightarrow> event_loop" where
  "advance t el =
     el\<lparr>clock := t,
        ui := fold (\<lambda>tm. typing_remove (snd tm)) (sort_key fst (filter (due t) (timers el)))
                (ui el),
        timers := filter (\<lambda>tm. \<not> due t tm) (timers el)\<rparr>"

text \<open>
  The broadcast callback of \<open>subscribeToTyping\<close>: another user's event adds the user
  (unless present) and schedules the removal 2000 ms later; nothing is cancelled.
\<close>

definition onTypingEvent :: "js_string \<Rightarrow> js_string \<Rightarrow> event_loop \<Rightarrow> event_loop" where
  "onTypingEvent userId payload_user_id el =
     (if payload_user_id \<noteq> userId
      then el\<lparr>ui := typing_add payload_user_id (ui el),
              timers := timers el @ [(clock el + 2000, payload_user_id)]\<rparr>
      else el)"

text \<open>A typing event received at time \<open>t\<close>: the timers due by then have fired.\<close>

definition receive_typing ::
  "js_string \<Rightarrow> nat \<Rightarrow> js_string \<Rightarrow> event_loop \<Rightarrow> event_loop" where
  "receive_typing userId t payload_user_id el =
     onTypingEvent userId payload_user_id (advance t el)"

definition typing_at :: "nat \<Rightarrow> event_loop \<Rightarrow> js_string list" where
  "typing_at t el = typingUsers (ui (advance t el))"

section \<open>Live subscriptions and the effect that opens them\<close>

text \<open>
  The realtime client keeps the channels that were subscribed and not removed, each
  with the ChatContainer instance whose callback (and state setter) it carries.
  \<open>subscribeToMessages\<close> and \<open>subscribeToTyping\<close> subscribe a channel for the conversation
  and return a function that removes it.
\<close>

datatype channel = MessagesChannel js_string | TypingChannel js_string

type_synonym subscription = "nat \<times> channel"

datatype cleanup = RemoveChannel subscription

definition subscribeToMessages ::
  "nat \<Rightarrow> js_string \<Rightarrow> subscription list \<Rightarrow> subscription list \<times> cleanup" where
  "subscribeToMessages inst conversationId chans =
     (chans @ [(inst, MessagesChannel conversationId)],
      RemoveChannel (inst, MessagesChannel conversationId))"

definition subscribeToTyping ::
  "nat \<Rightarrow> js_string \<Rightarrow> subscription list \<Rightarrow> subscription list \<times> cleanup" where
  "subscribeToTyping inst conversationId chans =
     (chans @ [(inst, TypingChannel conversationId)],
      RemoveChannel (inst, TypingChannel conversationId))"

fun run_cleanup :: "cleanup \<Rightarrow> subscription list \<Rightarrow> subscription list" where
  "run_cleanup (RemoveChannel c) chans = remove1 c chans"

text \<open>
  The chat pages: every ChatContainer instance mounted so far with its state (the
  route \<open>/chat/[id]\<close> mounts a new instance, with fresh state, for each conversation),
  the instance on screen, the client's channels, and the cleanup React holds for the
  effect of the instance on screen (what the effect callback returned).
\<close>

record page =
  instances :: "chat_container list"
  on_screen :: nat
  client_channels :: "subscription list"
  held_cleanup :: "cleanup option"

text \<open>
  The effect on \<open>[conversationId]\<close>, up to its first \<open>await\<close>: with a conversation it
  starts the history and details fetches and opens both subscriptions. The callback has
  no \<open>return\<close>: the two cleanup functions are dropped, and React is handed nothing to
  run later.
\<close>

definition conversation_effect :: "nat \<Rightarrow> js_string option \<Rightarrow> page \<Rightarrow> page" where
  "conversation_effect inst conversationId pg =
     (case conversationId of
        None \<Rightarrow> pg\<lparr>held_cleanup := None\<rparr>
      | Some cid \<Rightarrow>
          if cid = [] then pg\<lparr>held_cleanup := None\<rparr>
          else
            let (chans1, dropped1) = subscribeToMessages inst cid (client_channels pg);
                (chans2, dropped2) = subscribeToTyping inst cid chans1
            in pg\<lparr>instances :=
                    (instances pg)[inst :=
                       (case fetchMessages_begin conversationId (instances pg ! inst) of
                          None \<Rightarrow> instances pg ! inst
                        | Some st \<Rightarrow> st)],
                  client_channels := chans2,
                  held_cleanup := None\<rparr>)"

text \<open>
  Navigation to a chat page: the instance on screen unmounts, which runs the cleanup
  React holds for its effect (if any); a new instance mounts and its effect runs.
\<close>

definition navigate :: "js_string option \<Rightarrow> page \<Rightarrow> page" where
  "navigate conversationId pg =
     (let pg1 = (case held_cleanup pg of
                   None \<Rightarrow> pg
                 | Some c \<Rightarrow> pg\<lparr>client_channels := run_cleanup c (client_channels pg)\<rparr>);
          inst = length (instances pg1)
      in conversation_effect inst conversationId
           (pg1\<lparr>instances := instances pg1 @ [initial_container], on_screen := inst\<rparr>))"

definition open_page :: "js_string option \<Rightarrow> page" where
  "open_page conversationId =
     navigate conversationId
       \<lparr>instances = [], on_screen = 0, client_channels = [], held_cleanup = None\<rparr>"

text \<open>
  An inserted message row, delivered to every subscribed messages channel whose filter
  is the row's conversation, with its author lookup resolved to \<open>pdata\<close>: each such
  channel's callback runs \<open>fetchMessageWithUser\<close> on the state of the instance that
  subscribed it.
\<close>

definition insert_event_resolved :: "profile option \<Rightarrow> message \<Rightarrow> page \<Rightarrow> page" where
  "insert_event_resolved pdata m pg =
     pg\<lparr>instances :=
          fold (\<lambda>sub insts.
                  if snd sub = MessagesChannel (msg_conversation_id m)
                  then insts[fst sub := fetchMessageWithUser pdata m (insts ! fst sub)]
                  else insts)
            (client_channels pg) (instances pg)\<rparr>"

section \<open>The backing tables\<close>

text \<open>
  The columns of \<open>conversations\<close> and \<open>user_conversations\<close> that the client and the SQL
  functions read or write, as the schema declares them; \<open>messages\<close> rows are kept as
  \<open>message\<close> records without the joined author, and of \<open>profiles\<close> the identifiers,
  which the foreign keys refer to.
\<close>

record conversations_row =
  c_id :: js_string
  c_name :: js_string
  c_description :: "js_string option"
  c_is_group :: bool
  c_created_by :: "js_string option"
  c_created_at :: js_string

record user_conversations_row =
  uc_user_id :: js_string
  uc_conversation_id :: js_string
  uc_is_admin :: bool

record database =
  profiles :: "js_string list"
  conversations :: "conversations_row list"
  user_conversations :: "user_conversations_row list"
  messages_table :: "message list"

text \<open>The errors a statement can end with: a primary-key or \<open>UNIQUE\<close> violation, a
  foreign-key violation, a row-level policy violation.\<close>

datatype sql_error = UniqueViolation | ForeignKeyViolation | PolicyViolation

text \<open>What the client sends in an insert: only the columns it names.\<close>

record conversation_insert =
  ci_id :: js_string
  ci_name :: js_string
  ci_is_group :: bool

record user_conversation_insert =
  uci_user_id :: js_string
  uci_conversation_id :: js_string

datatype db_write =
  InsertConversation conversation_insert
| InsertUserConversations "user_conversation_insert list"

text \<open>
  The rows an accepted insert stores: a column the payload does not name takes the
  schema's default (\<open>is_admin BOOLEAN DEFAULT false\<close>, \<open>created_at ... DEFAULT now()\<close>,
  NULL for \<open>description\<close> and \<open>created_by\<close>).
\<close>

definition store_conversation :: "js_string \<Rightarrow> conversation_insert \<Rightarrow> conversations_row" where
  "store_conversation now ci =
     \<lparr>c_id = ci_id ci, c_name = ci_name ci, c_description = None,
      c_is_group = ci_is_group ci, c_created_by = None, c_created_at = now\<rparr>"

definition store_user_conversation :: "user_conversation_insert \<Rightarrow> user_conversations_row" where
  "store_user_conversation r =
     \<lparr>uc_user_id = uci_user_id r, uc_conversation_id = uci_conversation_id r,
      uc_is_admin = False\<rparr>"

text \<open>
  An insert into \<open>user_conversations\<close> by the signed-in user \<open>uid\<close>, row by row as the
  statement processes them: the insert policy \<open>WITH CHECK (user_id = auth.uid())\<close>,
  then \<open>UNIQUE(user_id, conversation_id)\<close> against the rows present and those inserted
  before. The first violation aborts the whole statement.
\<close>

fun insert_rows ::
  "js_string \<Rightarrow> user_conversation_insert list \<Rightarrow> user_conversations_row list
     \<Rightarrow> sql_error + user_conversations_row list" where
  "insert_rows uid [] table = Inr table"
| "insert_rows uid (r # rs) table =
     (if uci_user_id r \<noteq> uid then Inl PolicyViolation
      else if filter (\<lambda>x. uc_user_id x = uci_user_id r \<and>
                            uc_conversation_id x = uci_conversation_id r) table \<noteq> []
      then Inl UniqueViolation
      else insert_rows uid rs (table @ [store_user_conversation r]))"

text \<open>The foreign keys of the inserted rows, checked at the end of the statement.\<close>

definition references_hold :: "database \<Rightarrow> user_conversation_insert list \<Rightarrow> bool" where
  "references_hold db rows \<longleftrightarrow>
     list_all (\<lambda>r. uci_user_id r \<in> set (profiles db) \<and>
                   filter (\<lambda>c. c_id c = uci_conversation_id r) (conversations db) \<noteq> [])
       rows"

text \<open>
  What the platform does with an insert the signed-in user \<open>uid\<close> sends: a conversation
  is stored unless its identifier exists (its insert policy is \<open>WITH CHECK (true)\<close>);
  membership rows are stored all or none.
\<close>

fun apply_write ::
  "js_string \<Rightarrow> js_string \<Rightarrow> db_write \<Rightarrow> database \<Rightarrow> sql_error + database" where
  "apply_write uid now (InsertConversation ci) db =
     (if filter (\<lambda>c. c_id c = ci_id ci) (conversations db) \<noteq> [] then Inl UniqueViolation
      else Inr (db\<lparr>conversations := conversations db @ [store_conversation now ci]\<rparr>))"
| "apply_write uid now (InsertUserConversations rows) db =
     (case insert_rows uid rows (user_conversations db) of
        Inl e \<Rightarrow> Inl e
      | Inr table \<Rightarrow>
          if references_hold db rows then Inr (db\<lparr>user_conversations := table\<rparr>)
          else Inl ForeignKeyViolation)"

text \<open>
  The list query of the sidebar (\<open>fetchConversations\<close>, and the same query in the chat
  pages), as the platform evaluates it: the conversations inner-joined with a
  \<open>user_conversations\<close> row of the user, ordered by \<open>created_at\<close> descending, each with
  at most one embedded message. It runs as the signed-in user, whose identifier is the
  \<open>userId\<close> the query filters on, so the select policies admit the rows the filter
  keeps. \<open>stamp\<close> reads a timestamp column for comparison.
\<close>

record last_message =
  lm_content :: js_string
  lm_created_at :: js_string
  lm_user_id :: js_string

record conversation =
  cv_id :: js_string
  cv_name :: js_string
  cv_created_at :: js_string
  cv_is_group :: bool
  cv_last_message :: "last_message list"

definition is_member :: "database \<Rightarrow> js_string \<Rightarrow> conversations_row \<Rightarrow> bool" where
  "is_member db uid c \<longleftrightarrow>
     filter (\<lambda>uc. uc_conversation_id uc = c_id c \<and> uc_user_id uc = uid)
       (user_conversations db) \<noteq> []"

definition embed_conversation :: "database \<Rightarrow> conversations_row \<Rightarrow> conversation" where
  "embed_conversation db c =
     \<lparr>cv_id = c_id c, cv_name = c_name c, cv_created_at = c_created_at c,
      cv_is_group = c_is_group c,
      cv_last_message =
        take 1 (map (\<lambda>m. \<lparr>lm_content = msg_content m, lm_created_at = msg_created_at m,
                            lm_user_id = msg_user_id m\<rparr>)
                  (filter (\<lambda>m. msg_conversation_id m = c_id c) (messages_table db)))\<rparr>"

definition select_conversations ::
  "(js_string \<Rightarrow> 'a::linorder) \<Rightarrow> database \<Rightarrow> js_string \<Rightarrow> conversation list" where
  "select_conversations stamp db uid =
     map (embed_conversation db)
       (rev (sort_key (\<lambda>c. stamp (c_created_at c))
          (filter (is_member db uid) (conversations db))))"


text \<open>
  The SQL function \<open>create_group_conversation\<close> (its arguments taken non-null): inserts
  the conversation, the creator as admin, and every member other than the creator.
  \<open>new_id\<close> is the identifier the table's default generated. The function is
  \<open>SECURITY DEFINER\<close>, so no row-level policy applies; each statement still ends with
  its uniqueness and foreign-key checks (\<open>created_by\<close> and \<open>user_id\<close> refer to
  \<open>profiles\<close>), and a violation aborts the function with nothing stored.
\<close>

fun add_members ::
  "js_string list \<Rightarrow> js_string \<Rightarrow> js_string \<Rightarrow> js_string list \<Rightarrow> user_conversations_row list
     \<Rightarrow> sql_error + user_conversations_row list" where
  "add_members known creator_id cid [] rows = Inr rows"
| "add_members known creator_id cid (member_id # rest) rows =
     (if member_id \<noteq> creator_id
      then (if filter (\<lambda>r. uc_user_id r = member_id \<and> uc_conversation_id r = cid) rows \<noteq> []
            then Inl UniqueViolation
            else if member_id \<notin> set known then Inl ForeignKeyViolation
            else add_members known creator_id cid rest
                   (rows @ [\<lparr>uc_user_id = member_id, uc_conversation_id = cid,
                             uc_is_admin = False\<rparr>]))
      else add_members known creator_id cid rest rows)"

definition create_group_conversation ::
  "js_string \<Rightarrow> js_string \<Rightarrow> js_string \<Rightarrow> js_string \<Rightarrow> js_string option \<Rightarrow> js_string list
     \<Rightarrow> database \<Rightarrow> sql_error + (js_string \<times> database)" where
  "create_group_conversation now new_id creator_id group_name description member_ids db =
     (if filter (\<lambda>c. c_id c = new_id) (conversations db) \<noteq> [] then Inl UniqueViolation
      else if creator_id \<notin> set (profiles db) then Inl ForeignKeyViolation
      else
        let convs = conversations db @
              [\<lparr>c_id = new_id, c_name = group_name, c_description = description,
                c_is_group = True, c_created_by = Some creator_id, c_created_at = now\<rparr>];
            rows1 = user_conversations db @
              [\<lparr>uc_user_id = creator_id, uc_conversation_id = new_id, uc_is_admin = True\<rparr>]
        in case add_members (profiles db) creator_id new_id member_ids rows1 of
             Inl e \<Rightarrow> Inl e
           | Inr rows \<Rightarrow>
               Inr (new_id, db\<lparr>conversations := convs, user_conversations := rows\<rparr>))"

section \<open>ChatSidebar: the conversation list and conversation creation\<close>

record user =
  u_id :: js_string
  u_email :: js_string
  u_full_name :: "js_string option"
  u_username :: "js_string option"
  u_avatar_url :: "js_string option"

record chat_sidebar =
  activeConversations :: "conversation list"
  showNewChatModal :: bool
  searchUserTerm :: js_string
  selectedUsers :: "user list"
  isGroup :: bool
  groupName :: js_string
  isLoading :: bool
  error :: js_string

text \<open>\<open>fetchConversations\<close>: the list is replaced when the query returned data.\<close>

definition fetchConversations ::
  "conversation list response \<Rightarrow> chat_sidebar \<Rightarrow> chat_sidebar" where
  "fetchConversations resp st =
     (case resp_data resp of
        Some d \<Rightarrow> st\<lparr>activeConversations := d\<rparr>
      | None \<Rightarrow> st)"

text \<open>\<open>a || b\<close> on possibly undefined strings, and with a string as the last operand.\<close>

definition js_or :: "js_string option \<Rightarrow> js_string option \<Rightarrow> js_string option" where
  "js_or a b = (if truthy a then a else b)"

definition js_or_str :: "js_string option \<Rightarrow> js_string \<Rightarrow> js_string" where
  "js_or_str a b = (case a of None \<Rightarrow> b | Some s \<Rightarrow> if s \<noteq> [] then s else b)"

text \<open>
  \<open>createConversation\<close>. \<open>conversationId\<close> is what \<open>uuidv4()\<close> returned;
  \<open>conversationError\<close> and \<open>userConversationError\<close> say whether the two inserts
  reported an error. The outcome is the state afterwards, the inserts that were issued,
  in order, and the route pushed on success.
\<close>

record create_outcome =
  after :: chat_sidebar
  issued :: "db_write list"
  pushed :: "js_string option"

definition conversation_name :: "chat_sidebar \<Rightarrow> js_string" where
  "conversation_name st =
     (if \<not> isGroup st
      then (case selectedUsers st of
              [] \<Rightarrow> groupName st
            | u # _ \<Rightarrow> js_or_str (js_or (u_full_name u) (u_username u)) (u_email u))
      else groupName st)"

definition createConversation ::
  "js_string \<Rightarrow> js_string \<Rightarrow> bool \<Rightarrow> bool \<Rightarrow> chat_sidebar \<Rightarrow> create_outcome" where
  "createConversation userId conversationId conversationError userConversationError st =
     (if selectedUsers st = []
      then \<lparr>after = st\<lparr>error := js ''Please select at least one user''\<rparr>,
            issued = [], pushed = None\<rparr>
      else if isGroup st \<and> trim (groupName st) = []
      then \<lparr>after = st\<lparr>error := js ''Please enter a group name''\<rparr>,
            issued = [], pushed = None\<rparr>
      else
        let insert1 = InsertConversation
              \<lparr>ci_id = conversationId, ci_name = conversation_name st,
               ci_is_group = isGroup st\<rparr>;
            userConversations =
              \<lparr>uci_user_id = userId, uci_conversation_id = conversationId\<rparr> #
              map (\<lambda>u. \<lparr>uci_user_id = u_id u, uci_conversation_id = conversationId\<rparr>)
                (selectedUsers st);
            insert2 = InsertUserConversations userConversations;
            failed = st\<lparr>isLoading := False, error := js ''Failed to create conversation''\<rparr>
        in if conversationError
           then \<lparr>after = failed, issued = [insert1], pushed = None\<rparr>
           else if userConversationError
           then \<lparr>after = failed, issued = [insert1, insert2], pushed = None\<rparr>
           else \<lparr>after = st\<lparr>showNewChatModal := False, selectedUsers := [],
                              isGroup := False, groupName := [], searchUserTerm := [],
                              isLoading := False, error := []\<rparr>,
                  issued = [insert1, insert2],
                  pushed = Some (js ''/chat/'' @ conversationId)\<rparr>)"

text \<open>
  \<open>createConversation\<close> against the platform, the sidebar's user being the signed-in
  one: the two flags are the platform's answers to the inserts, the second sent only
  when the first was accepted. With the outcome comes the database afterwards.
\<close>

definition createConversation_on ::
  "js_string \<Rightarrow> js_string \<Rightarrow> js_string \<Rightarrow> chat_sidebar \<Rightarrow> database
     \<Rightarrow> create_outcome \<times> database" where
  "createConversation_on userId conversationId now st db =
     (case issued (createConversation userId conversationId False False st) of
        [insert1, insert2] \<Rightarrow>
          (case apply_write userId now insert1 db of
             Inl e \<Rightarrow> (createConversation userId conversationId True False st, db)
           | Inr db1 \<Rightarrow>
               (case apply_write userId now insert2 db1 of
                  Inl e \<Rightarrow> (createConversation userId conversationId False True st, db1)
                | Inr db2 \<Rightarrow> (createConversation userId conversationId False False st, db2)))
      | _ \<Rightarrow> (createConversation userId conversationId False False st, db))"

section \<open>Concrete data for the scenarios\<close>

definition hi_message :: message where
  "hi_message =
     newMessageObj (js ''alice'') (js ''c1'') (js ''m1'') (js ''2024-01-01T10:00:00.000Z'')
       (js ''hi'')"

definition later_message :: message where
  "later_message =
     newMessageObj (js ''bob'') (js ''c1'') (js ''m2'') (js ''2024-01-01T10:00:05.000Z'')
       (js ''hello'')"

definition typed_hi :: chat_container where
  "typed_hi = initial_container\<lparr>newMessage := js ''hi''\<rparr>"

definition showing_hi :: chat_container where
  "showing_hi = initial_container\<lparr>messages := [hi_message], newMessage := js ''yo''\<rparr>"

definition failed_response :: "'a response" where
  "failed_response = \<lparr>resp_data = None, resp_error = Some (js ''JWT expired'')\<rparr>"

definition bob_profile :: profile where
  "bob_profile =
     \<lparr>profile_id = js ''bob'', profile_email = js ''bob@example.org'',
      profile_full_name = None\<rparr>"

definition bob :: user where
  "bob = \<lparr>u_id = js ''bob'', u_email = js ''bob@example.org'', u_full_name = Some [],
          u_username = Some (js ''bobby''), u_avatar_url = None\<rparr>"

definition idle_loop :: event_loop where
  "idle_loop = \<lparr>clock = 0, timers = [], ui = initial_container\<rparr>"

definition fresh_stream :: live_stream where
  "fresh_stream = \<lparr>shown = initial_container, lookups = []\<rparr>"

text \<open>Alice and bob have signed up; no conversation exists yet.\<close>

definition signed_up_db :: database where
  "signed_up_db =
     \<lparr>profiles = [js ''alice'', js ''bob''], conversations = [], user_conversations = [],
      messages_table = []\<rparr>"

text \<open>
  Three conversations, the newest last in the table; alice is a member of \<open>c1\<close> and
  \<open>c2\<close>, carol of \<open>c3\<close>.
\<close>

definition three_conversations_db :: database where
  "three_conversations_db =
     \<lparr>profiles = [js ''alice'', js ''bob'', js ''carol''],
      conversations =
        [\<lparr>c_id = js ''c1'', c_name = js ''bobby'', c_description = None, c_is_group = False,
          c_created_by = None, c_created_at = js ''2024-01-01T09:00:00.000Z''\<rparr>,
         \<lparr>c_id = js ''c2'', c_name = js ''team'', c_description = None, c_is_group = True,
          c_created_by = None, c_created_at = js ''2024-01-02T09:00:00.000Z''\<rparr>,
         \<lparr>c_id = js ''c3'', c_name = js ''others'', c_description = None, c_is_group = True,
          c_created_by = None, c_created_at = js ''2024-01-03T09:00:00.000Z''\<rparr>],
      user_conversations =
        [\<lparr>uc_user_id = js ''alice'', uc_conversation_id = js ''c1'', uc_is_admin = False\<rparr>,
         \<lparr>uc_user_id = js ''alice'', uc_conversation_id = js ''c2'', uc_is_admin = False\<rparr>,
         \<lparr>uc_user_id = js ''carol'', uc_conversation_id = js ''c3'', uc_is_admin = False\<rparr>],
      messages_table = [hi_message]\<rparr>"

definition new_chat_form :: "bool \<Rightarrow> js_string \<Rightarrow> chat_sidebar" where
  "new_chat_form grp name =
     \<lparr>activeConversations = [], showNewChatModal = True, searchUserTerm = [],
      selectedUsers = [bob], isGroup = grp, groupName = name, isLoading = False, error = []\<rparr>"

text \<open>Alice's sidebar as it was loaded when \<open>c1\<close> was her only conversation, with an
  unsent search term.\<close>

definition older_sidebar :: chat_sidebar where
  "older_sidebar =
     \<lparr>activeConversations =
        [\<lparr>cv_id = js ''c1'', cv_name = js ''bobby'',
          cv_created_at = js ''2024-01-01T09:00:00.000Z'', cv_is_group = False,
          cv_last_message = []\<rparr>],
      showNewChatModal = False, searchUserTerm = js ''ca'', selectedUsers = [],
      isGroup = False, groupName = [], isLoading = False, error = []\<rparr>"

lemmas scenario_defs = hi_message_def later_message_def typed_hi_def showing_hi_def
  failed_response_def bob_profile_def bob_def idle_loop_def fresh_stream_def
  signed_up_db_def three_conversations_db_def new_chat_form_def older_sidebar_def
  initial_container_def newMessageObj_def js_def

section \<open>Remote inserts and the optimistic send\<close>

lemma messages_fetchMessageWithUser:
  "messages (fetchMessageWithUser pdata m st) =
     messages st @ [case pdata of None \<Rightarrow> m | Some d \<Rightarrow> m\<lparr>msg_user := Some d\<rparr>]"
  by (simp add: fetchMessageWithUser_def split: option.splits)

lemma annotated_fields:
  "msg_id (case pdata of None \<Rightarrow> m | Some d \<Rightarrow> m\<lparr>msg_user := Some d\<rparr>) = msg_id m"
  "msg_created_at (case pdata of None \<Rightarrow> m | Some d \<Rightarrow> m\<lparr>msg_user := Some d\<rparr>) =
     msg_created_at m"
  by (simp_all split: option.splits)

lemma filter_other_ids:
  "x \<notin> f ` set xs \<Longrightarrow> filter (\<lambda>y. f y \<noteq> x) xs = xs"
  by (induction xs) auto

text \<open>
  Claim C1, as the code has it: a remote insert event is appended at the end of the
  sequence whether or not its identifier already occurs there (with the author summary
  when the lookup found one). The number of entries carrying the identifier grows by
  one, so the identifier occurs exactly once afterwards precisely when it did not occur
  before.
\<close>

theorem remote_insert_always_appends:
  "messages (fetchMessageWithUser pdata m st) =
     messages st @ [case pdata of None \<Rightarrow> m | Some d \<Rightarrow> m\<lparr>msg_user := Some d\<rparr>]
   \<and> count_list (map msg_id (messages (fetchMessageWithUser pdata m st))) (msg_id m) =
       count_list (map msg_id (messages st)) (msg_id m) + 1
   \<and> (count_list (map msg_id (messages (fetchMessageWithUser pdata m st))) (msg_id m) = 1
        \<longleftrightarrow> msg_id m \<notin> set (map msg_id (messages st)))"
proof -
  have "count_list (map msg_id (messages st)) (msg_id m) = 0
          \<longleftrightarrow> msg_id m \<notin> set (map msg_id (messages st))"
    by (simp only: count_list_0_iff)
  then show ?thesis
    by (simp add: messages_fetchMessageWithUser annotated_fields)
qed

theorem remote_insert_always_appends_witness:
  "map msg_id (messages (fetchMessageWithUser (Some bob_profile) later_message showing_hi)) =
     [js ''m1'', js ''m2'']
   \<and> count_list (map msg_id (messages
        (fetchMessageWithUser (Some bob_profile) later_message showing_hi))) (js ''m2'') = 1"
  using remote_insert_always_appends [of "Some bob_profile" later_message showing_hi]
  by (simp add: scenario_defs)

text \<open>
  The claim as stated fails: alice sends ``hi'' with identifier \<open>m1\<close>, the insert
  succeeds, and the echoed insert event for \<open>m1\<close> is appended as a second entry.
\<close>

theorem echo_is_appended_again:
  "map msg_id (messages (handleSendMessage (js ''alice'') (Some (js ''c1'')) (js ''m1'')
          (js ''2024-01-01T10:00:00.000Z'') False typed_hi)) = [js ''m1'']
   \<and> msg_id hi_message = js ''m1''
   \<and> map msg_id (messages (fetchMessageWithUser None hi_message
       (handleSendMessage (js ''alice'') (Some (js ''c1'')) (js ''m1'')
          (js ''2024-01-01T10:00:00.000Z'') False typed_hi))) = [js ''m1'', js ''m1'']"
  by (simp add: handleSendMessage_def send_optimistic_def send_settle_def
      fetchMessageWithUser_def trim_def is_white_space_def scenario_defs)

text \<open>
  Claim C2: a send whose insert fails leaves the message sequence exactly as it was
  before the send, for every sequence and every text that is not blank; the identifier
  that \<open>uuidv4\<close> generated is new to the sequence. Only the input field differs from
  the state before. Messages appended while the insert was pending stay, in order.
\<close>

theorem failed_send_restores_sequence:
  assumes "trim (newMessage st) \<noteq> []" and "truthy conversationId"
    and "messageId \<notin> msg_id ` set (messages st)"
    and "messageId \<notin> msg_id ` set arrived"
  shows "messages (handleSendMessage userId conversationId messageId now True st) = messages st
       \<and> handleSendMessage userId conversationId messageId now True st = st\<lparr>newMessage := []\<rparr>
       \<and> (\<exists>st1. send_optimistic userId conversationId messageId now st = Some st1
             \<and> messageId \<in> msg_id ` set (messages st1)
             \<and> messages (send_settle True messageId (st1\<lparr>messages := messages st1 @ arrived\<rparr>))
                 = messages st @ arrived)"
proof -
  obtain cid where cid: "conversationId = Some cid" "cid \<noteq> []"
    using assms(2) by (auto simp: truthy_def split: option.splits)
  let ?st1 = "st\<lparr>messages := messages st @
                  [newMessageObj userId cid messageId now (newMessage st)],
                newMessage := []\<rparr>"
  have opt: "send_optimistic userId conversationId messageId now st = Some ?st1"
    using assms(1) cid by (simp add: send_optimistic_def)
  have keep: "filter (\<lambda>msg. msg_id msg \<noteq> messageId) (messages st) = messages st"
    "filter (\<lambda>msg. msg_id msg \<noteq> messageId) arrived = arrived"
    using assms(3,4) by (simp_all add: filter_other_ids)
  have a: "handleSendMessage userId conversationId messageId now True st = st\<lparr>newMessage := []\<rparr>"
    by (simp add: handleSendMessage_def opt send_settle_def keep newMessageObj_def)
  have b: "messages (send_settle True messageId (?st1\<lparr>messages := messages ?st1 @ arrived\<rparr>))
             = messages st @ arrived"
    by (simp add: send_settle_def keep newMessageObj_def)
  have c: "messageId \<in> msg_id ` set (messages ?st1)"
    by (simp add: newMessageObj_def)
  show ?thesis
    using a b c opt by simp
qed

theorem failed_send_restores_sequence_witness:
  "trim (newMessage showing_hi) \<noteq> [] \<and> truthy (Some (js ''c1''))
   \<and> messages (handleSendMessage (js ''alice'') (Some (js ''c1'')) (js ''m3'')
        (js ''2024-01-01T10:00:09.000Z'') True showing_hi) = [hi_message]"
proof -
  have a: "trim (newMessage showing_hi) \<noteq> []"
    by (simp add: trim_def is_white_space_def scenario_defs)
  have b: "truthy (Some (js ''c1''))"
    by (simp add: truthy_def js_def)
  have c: "js ''m3'' \<notin> msg_id ` set (messages showing_hi)"
    by (simp add: scenario_defs)
  have d: "js ''m3'' \<notin> msg_id ` set [later_message]"
    by (simp add: scenario_defs)
  have "messages showing_hi = [hi_message]"
    by (simp add: showing_hi_def)
  with failed_send_restores_sequence [OF a b c d] a b show ?thesis
    by simp
qed

section \<open>Loading the history\<close>

text \<open>
  Claim C3, as the code has it: when the history query fails, nothing is stored and
  nothing is removed. The state is the one the component has when the query resolves,
  with the loading flag cleared: the pane shows the empty notice exactly when the
  sequence is empty at that moment, as it is when nothing was appended since the
  instance mounted, and otherwise the messages that live inserts and sends appended
  while the query was pending. There is no error state.
\<close>

theorem failed_fetch_leaves_messages:
  assumes "resp_error resp = Some e" and "truthy conversationId"
  shows "fetchMessages_resume resp st = st\<lparr>loading := False\<rparr>
       \<and> messages (fetchMessages_resume resp st) = messages st
       \<and> render conversationId (fetchMessages_resume resp st) =
           (if messages st = [] then NoMessagesYet else MessageList (messages st))
       \<and> (\<exists>st1. fetchMessages_begin conversationId initial_container = Some st1
             \<and> render conversationId (fetchMessages_resume resp st1) = NoMessagesYet)"
  using assms
  by (simp add: fetchMessages_begin_def fetchMessages_resume_def render_def Let_def
      initial_container_def)

theorem failed_fetch_leaves_messages_witness:
  "resp_error (failed_response :: message_row list response) = Some (js ''JWT expired'')
   \<and> truthy (Some (js ''c1''))
   \<and> render (Some (js ''c1'')) (fetchMessages_resume failed_response showing_hi)
       = MessageList [hi_message]"
proof -
  have a: "resp_error (failed_response :: message_row list response) = Some (js ''JWT expired'')"
    by (simp add: failed_response_def)
  have b: "truthy (Some (js ''c1''))"
    by (simp add: truthy_def js_def)
  have "messages showing_hi = [hi_message]"
    by (simp add: showing_hi_def)
  with failed_fetch_leaves_messages [OF a b, of showing_hi, THEN conjunct2, THEN conjunct2,
      THEN conjunct1]
  have "render (Some (js ''c1'')) (fetchMessages_resume failed_response showing_hi)
      = MessageList [hi_message]"
    by simp
  with a b show ?thesis
    by (simp only: simp_thms)
qed

text \<open>
  The claim as stated fails: a new instance for \<open>c1\<close> starts the fetch; an insert
  event for \<open>c1\<close> arrives and its lookup resolves while the query is pending; the query
  fails, and the pane lists that one message, without the history.
\<close>

theorem failed_fetch_shows_partial_list:
  "fetchMessages_begin (Some (js ''c1'')) initial_container =
     Some (initial_container\<lparr>loading := True\<rparr>)
   \<and> msg_conversation_id later_message = js ''c1''
   \<and> render (Some (js ''c1''))
       (fetchMessages_resume failed_response
          (fetchMessageWithUser (Some bob_profile) later_message
             (initial_container\<lparr>loading := True\<rparr>))) =
     MessageList [later_message\<lparr>msg_user := Some bob_profile\<rparr>]"
  by (simp add: render_def fetchMessages_begin_def fetchMessages_resume_def
      fetchMessageWithUser_def truthy_def scenario_defs)

section \<open>Order of the live stream\<close>






section \<open>The conversation list\<close>

lemma set_select_conversations:
  "set (select_conversations stamp db uid) =
     embed_conversation db ` {c \<in> set (conversations db). is_member db uid c}"
  by (simp add: select_conversations_def)

lemma is_member_iff:
  "is_member db uid c \<longleftrightarrow>
     (\<exists>uc\<in>set (user_conversations db). uc_user_id uc = uid \<and> uc_conversation_id uc = c_id c)"
  by (auto simp: is_member_def filter_empty_conv)

lemma embed_conversation_fields:
  "cv_id (embed_conversation db c) = c_id c"
  "cv_name (embed_conversation db c) = c_name c"
  "cv_created_at (embed_conversation db c) = c_created_at c"
  by (simp_all add: embed_conversation_def)

text \<open>
  Claim C5, as the code has it: when the list query returns data, the local list is
  replaced by the returned rows whatever it held before, and nothing else of the
  sidebar changes; when it returns no data, the sidebar is left as it was. With the
  rows the query denotes, the list contains exactly the conversations for which the
  user has a membership row, once per conversation row, ordered by creation time
  descending.
\<close>

theorem refresh_lists_memberships:
  fixes stamp :: "js_string \<Rightarrow> 'a::linorder"
  shows "(resp_data resp = None \<longrightarrow> fetchConversations resp st = st)
       \<and> (\<forall>d. resp_data resp = Some d \<longrightarrow>
             fetchConversations resp st = st\<lparr>activeConversations := d\<rparr>)
       \<and> (resp_data resp = Some (select_conversations stamp db userId) \<longrightarrow>
             set (map cv_id (activeConversations (fetchConversations resp st))) =
               {c_id c | c. c \<in> set (conversations db) \<and>
                  (\<exists>uc\<in>set (user_conversations db).
                     uc_user_id uc = userId \<and> uc_conversation_id uc = c_id c)}
           \<and> length (activeConversations (fetchConversations resp st)) =
               length (filter (\<lambda>c. \<exists>uc\<in>set (user_conversations db).
                     uc_user_id uc = userId \<and> uc_conversation_id uc = c_id c)
                  (conversations db))
           \<and> sorted (rev (map (\<lambda>c. stamp (cv_created_at c))
               (activeConversations (fetchConversations resp st)))))"
proof -
  have a: "resp_data resp = None \<longrightarrow> fetchConversations resp st = st"
    by (simp add: fetchConversations_def)
  have b: "\<forall>d. resp_data resp = Some d \<longrightarrow>
      fetchConversations resp st = st\<lparr>activeConversations := d\<rparr>"
    by (simp add: fetchConversations_def)
  have ids: "set (map cv_id (select_conversations stamp db userId)) =
      {c_id c | c. c \<in> set (conversations db) \<and>
         (\<exists>uc\<in>set (user_conversations db).
            uc_user_id uc = userId \<and> uc_conversation_id uc = c_id c)}"
    by (fastforce simp: set_select_conversations is_member_iff image_iff
        embed_conversation_fields)
  have len: "length (select_conversations stamp db userId) =
      length (filter (\<lambda>c. \<exists>uc\<in>set (user_conversations db).
         uc_user_id uc = userId \<and> uc_conversation_id uc = c_id c) (conversations db))"
    by (simp add: select_conversations_def is_member_iff [abs_def])
  have "map (\<lambda>c. stamp (cv_created_at c)) (select_conversations stamp db userId) =
      rev (map (\<lambda>c. stamp (c_created_at c))
        (sort_key (\<lambda>c. stamp (c_created_at c))
           (filter (is_member db userId) (conversations db))))"
    by (simp add: select_conversations_def rev_map comp_def embed_conversation_fields)
  then have ord: "sorted (rev (map (\<lambda>c. stamp (cv_created_at c))
      (select_conversations stamp db userId)))"
    by simp
  have c: "resp_data resp = Some (select_conversations stamp db userId) \<longrightarrow>
      set (map cv_id (activeConversations (fetchConversations resp st))) =
        {c_id c | c. c \<in> set (conversations db) \<and>
           (\<exists>uc\<in>set (user_conversations db).
              uc_user_id uc = userId \<and> uc_conversation_id uc = c_id c)}
      \<and> length (activeConversations (fetchConversations resp st)) =
          length (filter (\<lambda>c. \<exists>uc\<in>set (user_conversations db).
                uc_user_id uc = userId \<and> uc_conversation_id uc = c_id c)
             (conversations db))
      \<and> sorted (rev (map (\<lambda>c. stamp (cv_created_at c))
          (activeConversations (fetchConversations resp st))))"
    using ids len ord by (simp add: fetchConversations_def)
  from a b c show ?thesis by (intro conjI)
qed

theorem refresh_lists_memberships_witness:
  "map cv_id (activeConversations (fetchConversations
      \<lparr>resp_data = Some (select_conversations (\<lambda>s. s) three_conversations_db (js ''alice'')),
       resp_error = None\<rparr> older_sidebar)) = [js ''c2'', js ''c1'']
   \<and> searchUserTerm (fetchConversations
      \<lparr>resp_data = Some (select_conversations (\<lambda>s. s) three_conversations_db (js ''alice'')),
       resp_error = None\<rparr> older_sidebar) = js ''ca''
   \<and> fetchConversations failed_response older_sidebar = older_sidebar"
proof -
  let ?d = "select_conversations (\<lambda>s. s) three_conversations_db (js ''alice'')"
  let ?resp = "\<lparr>resp_data = Some ?d, resp_error = None\<rparr>"
  note inst = refresh_lists_memberships [where stamp = "\<lambda>s. s" and st = older_sidebar
      and db = three_conversations_db and userId = "js ''alice''"]
  have d: "map cv_id ?d = [js ''c2'', js ''c1'']"
    by (simp add: select_conversations_def is_member_def embed_conversation_def
        scenario_defs)
  from inst [of ?resp, THEN conjunct2, THEN conjunct1]
  have "fetchConversations ?resp older_sidebar = older_sidebar\<lparr>activeConversations := ?d\<rparr>"
    by simp
  then have one: "map cv_id (activeConversations (fetchConversations ?resp older_sidebar)) =
      [js ''c2'', js ''c1'']"
    and two: "searchUserTerm (fetchConversations ?resp older_sidebar) = js ''ca''"
    using d by (simp_all add: older_sidebar_def)
  from inst [of failed_response, THEN conjunct1]
  have three: "fetchConversations failed_response older_sidebar = older_sidebar"
    by (simp add: failed_response_def)
  from one two three show ?thesis by (intro conjI)
qed

text \<open>
  The claim as stated fails: alice's sidebar lists \<open>c1\<close>; she has since become a member
  of \<open>c2\<close>; the query of the refresh fails, and the sidebar still lists \<open>c1\<close> only.
\<close>

theorem failed_refresh_keeps_old_list:
  "map cv_id (select_conversations (\<lambda>s. s) three_conversations_db (js ''alice'')) =
     [js ''c2'', js ''c1'']
   \<and> map cv_id (activeConversations (fetchConversations failed_response older_sidebar)) =
       [js ''c1'']"
  by (simp add: select_conversations_def is_member_def embed_conversation_def
      fetchConversations_def scenario_defs)

section \<open>Expiry of the typing indicator\<close>

lemma typingUsers_typing_remove:
  "typingUsers (typing_remove u st) = filter (\<lambda>i. i \<noteq> u) (typingUsers st)"
  by (simp add: typing_remove_def)

lemma typingUsers_fold_remove:
  "typingUsers (fold (\<lambda>tm. typing_remove (snd tm)) ts st) =
     filter (\<lambda>u. u \<notin> snd ` set ts) (typingUsers st)"
proof (induction ts arbitrary: st)
  case Nil
  show ?case by simp
next
  case (Cons tm ts)
  have "typingUsers (fold (\<lambda>tm. typing_remove (snd tm)) (tm # ts) st) =
      filter (\<lambda>u. u \<notin> snd ` set ts) (filter (\<lambda>i. i \<noteq> snd tm) (typingUsers st))"
    by (simp add: Cons.IH typingUsers_typing_remove)
  also have "\<dots> = filter (\<lambda>u. u \<notin> snd ` set (tm # ts)) (typingUsers st)"
    by (auto intro: filter_cong)
  finally show ?case .
qed

lemma typing_at_filter:
  "typing_at t el =
     filter (\<lambda>u. u \<notin> snd ` {tm \<in> set (timers el). fst tm \<le> t}) (typingUsers (ui el))"
  by (simp add: typing_at_def advance_def typingUsers_fold_remove due_def)

lemma timers_receive_typing:
  "u \<noteq> me \<Longrightarrow> timers (receive_typing me T u el) =
     filter (\<lambda>tm. \<not> fst tm \<le> T) (timers el) @ [(T + 2000, u)]"
  by (simp add: receive_typing_def onTypingEvent_def advance_def due_def)

lemma present_after_receive_typing:
  "u \<noteq> me \<Longrightarrow> u \<in> set (typingUsers (ui (receive_typing me T u el)))"
  by (simp add: receive_typing_def onTypingEvent_def typing_add_def)

lemma typing_after_one_event:
  assumes "U \<noteq> me" and "U \<notin> snd ` set (timers el)"
  shows "U \<in> set (typing_at t (receive_typing me T U el)) \<longleftrightarrow> t < T + 2000"
proof -
  have "U \<notin> snd ` {tm \<in> set (filter (\<lambda>tm. \<not> fst tm \<le> T) (timers el)). fst tm \<le> t}"
    using assms(2) by (auto simp: image_iff)
  then have "U \<in> snd ` {tm \<in> set (timers (receive_typing me T U el)). fst tm \<le> t}
      \<longleftrightarrow> T + 2000 \<le> t"
    using assms(1) by (auto simp: timers_receive_typing image_iff)
  then show ?thesis
    using assms(1) by (auto simp: typing_at_filter present_after_receive_typing)
qed

lemma typing_after_two_events:
  assumes "U \<noteq> me" and "U \<notin> snd ` set (timers el)" and "T1 \<le> T2" and "T2 < T1 + 2000"
  shows "U \<in> set (typing_at t (receive_typing me T2 U (receive_typing me T1 U el)))
           \<longleftrightarrow> t < T1 + 2000"
proof -
  let ?el1 = "receive_typing me T1 U el"
  have t1: "timers ?el1 = filter (\<lambda>tm. \<not> fst tm \<le> T1) (timers el) @ [(T1 + 2000, U)]"
    using assms(1) by (rule timers_receive_typing)
  have "U \<notin> snd ` {tm \<in> set (filter (\<lambda>tm. \<not> fst tm \<le> T1) (timers el)). P tm}" for P
    using assms(2) by (auto simp: image_iff)
  then have "U \<in> snd ` {tm \<in> set (timers (receive_typing me T2 U ?el1)). fst tm \<le> t}
      \<longleftrightarrow> T1 + 2000 \<le> t"
    using assms(1,3,4) by (auto simp: timers_receive_typing [of U me T2] t1 image_iff)
  then show ?thesis
    using assms(1) by (auto simp: typing_at_filter present_after_receive_typing)
qed

text \<open>
  Claim C6: after a single typing event from another user \<open>U\<close> received at time \<open>T\<close>
  (milliseconds), with no other removal pending for \<open>U\<close>, \<open>U\<close> is in the typing set
  at \<open>T + 1900\<close> and not at \<open>T + 2100\<close>; the removal takes place at \<open>T + 2000\<close>.
\<close>

theorem typing_expires_after_two_seconds:
  assumes "U \<noteq> me" and "U \<notin> snd ` set (timers el)"
  shows "U \<in> set (typing_at (T + 1900) (receive_typing me T U el))
       \<and> U \<notin> set (typing_at (T + 2100) (receive_typing me T U el))
       \<and> (\<forall>t. U \<in> set (typing_at t (receive_typing me T U el)) \<longleftrightarrow> t < T + 2000)"
  using typing_after_one_event [OF assms] by simp

theorem typing_expires_after_two_seconds_witness:
  "js ''bob'' \<noteq> js ''alice'' \<and> js ''bob'' \<notin> snd ` set (timers idle_loop)
   \<and> js ''bob'' \<in> set (typing_at (5000 + 1900)
        (receive_typing (js ''alice'') 5000 (js ''bob'') idle_loop))
   \<and> js ''bob'' \<notin> set (typing_at (5000 + 2100)
        (receive_typing (js ''alice'') 5000 (js ''bob'') idle_loop))"
proof -
  have a: "js ''bob'' \<noteq> js ''alice''"
    by (simp add: js_def)
  have b: "js ''bob'' \<notin> snd ` set (timers idle_loop)"
    by (simp add: idle_loop_def)
  from typing_expires_after_two_seconds [OF a b, of 5000] a b show ?thesis
    by simp
qed

text \<open>
  Claim C7, as the code has it: when a second typing event from \<open>U\<close> arrives before
  the removal scheduled by the first one, that removal still takes place on time: \<open>U\<close>
  stays in the typing set until 2 seconds after the first event and is absent from then
  on (until a further event); the second event's own removal finds \<open>U\<close> gone.
\<close>

theorem second_event_does_not_extend:
  assumes "U \<noteq> me" and "U \<notin> snd ` set (timers el)" and "T1 \<le> T2" and "T2 < T1 + 2000"
  shows "\<forall>t. U \<in> set (typing_at t (receive_typing me T2 U (receive_typing me T1 U el)))
           \<longleftrightarrow> t < T1 + 2000"
  using typing_after_two_events [OF assms] by simp

theorem second_event_does_not_extend_witness:
  "js ''bob'' \<in> set (typing_at 1999
      (receive_typing (js ''alice'') 1000 (js ''bob'')
        (receive_typing (js ''alice'') 0 (js ''bob'') idle_loop)))
   \<and> js ''bob'' \<notin> set (typing_at 2000
      (receive_typing (js ''alice'') 1000 (js ''bob'')
        (receive_typing (js ''alice'') 0 (js ''bob'') idle_loop)))"
proof -
  have a: "js ''bob'' \<noteq> js ''alice''"
    by (simp add: js_def)
  have b: "js ''bob'' \<notin> snd ` set (timers idle_loop)"
    by (simp add: idle_loop_def)
  have c: "(0::nat) \<le> 1000" and d: "(1000::nat) < 0 + 2000"
    by simp_all
  from second_event_does_not_extend [OF a b c d] show ?thesis
    by simp
qed

text \<open>
  The claim as stated fails: events from bob at 0 ms and 1000 ms; at 2500 ms, which is
  before 2 seconds after the second event, bob is no longer in the typing set.
\<close>

theorem second_event_removed_by_first_timer:
  "(1000::nat) < 0 + 2000 \<and> (2500::nat) < 1000 + 2000
   \<and> js ''bob'' \<notin> set (typing_at 2500
      (receive_typing (js ''alice'') 1000 (js ''bob'')
        (receive_typing (js ''alice'') 0 (js ''bob'') idle_loop)))"
  by (simp add: typing_at_def receive_typing_def onTypingEvent_def advance_def due_def
      typing_add_def typing_remove_def scenario_defs)

section \<open>Creating a conversation\<close>



lemma issued_success:
  "selectedUsers st \<noteq> [] \<Longrightarrow> \<not> (isGroup st \<and> trim (groupName st) = []) \<Longrightarrow>
   issued (createConversation userId cid False False st) =
     [InsertConversation
        \<lparr>ci_id = cid, ci_name = conversation_name st, ci_is_group = isGroup st\<rparr>,
      InsertUserConversations
        (\<lparr>uci_user_id = userId, uci_conversation_id = cid\<rparr> #
         map (\<lambda>u. \<lparr>uci_user_id = u_id u, uci_conversation_id = cid\<rparr>) (selectedUsers st))]"
  by (simp add: createConversation_def Let_def)

lemma issued_invalid:
  "selectedUsers st = [] \<or> (isGroup st \<and> trim (groupName st) = []) \<Longrightarrow>
   createConversation userId cid cErr ucErr st = createConversation userId cid False False st
   \<and> issued (createConversation userId cid False False st) = []
   \<and> pushed (createConversation userId cid False False st) = None"
  by (auto simp: createConversation_def Let_def)

lemma pushed_on_error:
  "cErr \<or> ucErr \<Longrightarrow> pushed (createConversation userId cid cErr ucErr st) = None"
  by (auto simp: createConversation_def Let_def)

text \<open>The membership batch of the sidebar is never accepted.\<close>

lemma insert_rows_second_row:
  assumes "filter (\<lambda>x. uc_user_id x = uid \<and> uc_conversation_id x = cid) table \<noteq> []"
    and "uci_conversation_id r = cid"
  shows "\<exists>e. insert_rows uid (r # rs) table = Inl e"
  using assms by (cases "uci_user_id r = uid") auto

lemma membership_batch_rejected:
  assumes "selected \<noteq> []"
  shows "\<exists>e. apply_write userId now
           (InsertUserConversations
              (\<lparr>uci_user_id = userId, uci_conversation_id = cid\<rparr> #
               map (\<lambda>u. \<lparr>uci_user_id = u_id u, uci_conversation_id = cid\<rparr>) selected)) db
         = Inl e"
proof -
  obtain u us where sel: "selected = u # us"
    using assms by (cases selected) auto
  let ?self = "\<lparr>uci_user_id = userId, uci_conversation_id = cid\<rparr>"
  let ?r = "\<lparr>uci_user_id = u_id u, uci_conversation_id = cid\<rparr>"
  let ?rs = "map (\<lambda>u. \<lparr>uci_user_id = u_id u, uci_conversation_id = cid\<rparr>) us"
  have "\<exists>e. insert_rows userId (?self # ?r # ?rs) (user_conversations db) = Inl e"
  proof (cases "filter (\<lambda>x. uc_user_id x = userId \<and> uc_conversation_id x = cid)
      (user_conversations db) = []")
    case True
    have "filter (\<lambda>x. uc_user_id x = userId \<and> uc_conversation_id x = cid)
        (user_conversations db @ [store_user_conversation ?self]) \<noteq> []"
      by (simp add: store_user_conversation_def)
    from insert_rows_second_row [OF this, of ?r ?rs]
    obtain e where "insert_rows userId (?r # ?rs)
        (user_conversations db @ [store_user_conversation ?self]) = Inl e"
      by auto
    with True show ?thesis by simp
  next
    case False
    then show ?thesis by simp
  qed
  then show ?thesis
    by (auto simp: sel)
qed

lemma sidebar_creation_never_completes:
  "pushed (fst (createConversation_on userId cid now st db)) = None"
proof (cases "selectedUsers st = [] \<or> (isGroup st \<and> trim (groupName st) = [])")
  case True
  from issued_invalid [OF this, of userId cid] show ?thesis
    by (simp add: createConversation_on_def)
next
  case False
  then have sel: "selectedUsers st \<noteq> []" and ok: "\<not> (isGroup st \<and> trim (groupName st) = [])"
    by auto
  note iss = issued_success [OF sel ok, of userId cid]
  show ?thesis
  proof (cases "apply_write userId now (InsertConversation
      \<lparr>ci_id = cid, ci_name = conversation_name st, ci_is_group = isGroup st\<rparr>) db")
    case (Inl e)
    then show ?thesis
      by (simp add: createConversation_on_def iss pushed_on_error)
  next
    case (Inr db1)
    from membership_batch_rejected [OF sel, of userId now cid db1]
    obtain e where "apply_write userId now
           (InsertUserConversations
              (\<lparr>uci_user_id = userId, uci_conversation_id = cid\<rparr> #
               map (\<lambda>u. \<lparr>uci_user_id = u_id u, uci_conversation_id = cid\<rparr>)
                 (selectedUsers st))) db1 = Inl e"
      by auto
    with Inr show ?thesis
      by (simp add: createConversation_on_def iss pushed_on_error)
  qed
qed

text \<open>
  The SQL function stores the creator's membership with the admin flag set, whenever it
  succeeds.
\<close>

lemma add_members_keeps_rows:
  "add_members known creator_id cid member_ids rows = Inr rows' \<Longrightarrow> set rows \<subseteq> set rows'"
proof (induction member_ids arbitrary: rows)
  case Nil
  then show ?case by simp
next
  case (Cons member_id rest)
  show ?case
  proof (cases "member_id \<noteq> creator_id")
    case True
    with Cons.prems have "add_members known creator_id cid rest
        (rows @ [\<lparr>uc_user_id = member_id, uc_conversation_id = cid, uc_is_admin = False\<rparr>])
        = Inr rows'"
      by (simp split: if_splits)
    from Cons.IH [OF this] show ?thesis by simp
  next
    case False
    with Cons.prems have "add_members known creator_id cid rest rows = Inr rows'"
      by simp
    from Cons.IH [OF this] show ?thesis .
  qed
qed

lemma sql_function_makes_creator_admin:
  assumes "create_group_conversation now new_id creator_id group_name description member_ids db
             = Inr (cid, db')"
  shows "\<lparr>uc_user_id = creator_id, uc_conversation_id = cid, uc_is_admin = True\<rparr>
           \<in> set (user_conversations db')"
proof -
  from assms obtain rows where
    rows: "add_members (profiles db) creator_id new_id member_ids
        (user_conversations db @
           [\<lparr>uc_user_id = creator_id, uc_conversation_id = new_id, uc_is_admin = True\<rparr>])
        = Inr rows"
    and res: "cid = new_id" "user_conversations db' = rows"
    by (auto simp: create_group_conversation_def Let_def split: if_splits sum.splits)
  from add_members_keeps_rows [OF rows] res show ?thesis
    by auto
qed

text \<open>
  Claim C8 at a concrete input: alice creates the group ``team'' with bob through the
  sidebar, both having profiles. The membership rows the sidebar sends name only
  \<open>user_id\<close> and \<open>conversation_id\<close>, so a stored row takes the default \<open>is_admin\<close>,
  false. The batch holds bob's row, which the insert policy rejects: the conversation
  is stored without any membership row and the sidebar reports the failure. The SQL
  function, given the same group, stores alice's row with the flag true.
\<close>

theorem sidebar_group_creator_is_not_admin:
  "issued (createConversation (js ''alice'') (js ''g1'') False True
      (new_chat_form True (js ''team''))) =
     [InsertConversation \<lparr>ci_id = js ''g1'', ci_name = js ''team'', ci_is_group = True\<rparr>,
      InsertUserConversations
        [\<lparr>uci_user_id = js ''alice'', uci_conversation_id = js ''g1''\<rparr>,
         \<lparr>uci_user_id = js ''bob'', uci_conversation_id = js ''g1''\<rparr>]]
   \<and> store_user_conversation \<lparr>uci_user_id = js ''alice'', uci_conversation_id = js ''g1''\<rparr> =
       \<lparr>uc_user_id = js ''alice'', uc_conversation_id = js ''g1'', uc_is_admin = False\<rparr>
   \<and> map c_id (conversations (snd (createConversation_on (js ''alice'') (js ''g1'')
        (js ''2024-01-01T10:00:00.000Z'') (new_chat_form True (js ''team'')) signed_up_db))) =
       [js ''g1'']
   \<and> user_conversations (snd (createConversation_on (js ''alice'') (js ''g1'')
        (js ''2024-01-01T10:00:00.000Z'') (new_chat_form True (js ''team'')) signed_up_db)) = []
   \<and> error (after (fst (createConversation_on (js ''alice'') (js ''g1'')
        (js ''2024-01-01T10:00:00.000Z'') (new_chat_form True (js ''team'')) signed_up_db))) =
       js ''Failed to create conversation''
   \<and> map_sum id (\<lambda>r. user_conversations (snd r))
       (create_group_conversation (js ''2024-01-01T10:00:00.000Z'') (js ''g1'') (js ''alice'')
          (js ''team'') None [js ''bob''] signed_up_db) =
     Inr [\<lparr>uc_user_id = js ''alice'', uc_conversation_id = js ''g1'', uc_is_admin = True\<rparr>,
          \<lparr>uc_user_id = js ''bob'', uc_conversation_id = js ''g1'', uc_is_admin = False\<rparr>]"
  by (simp add: createConversation_on_def createConversation_def create_group_conversation_def
      conversation_name_def Let_def trim_def is_white_space_def store_user_conversation_def
      store_conversation_def scenario_defs)








section \<open>Switching the conversation\<close>

lemma effect_holds_no_cleanup:
  "held_cleanup (conversation_effect inst conversationId pg) = None"
  by (simp add: conversation_effect_def Let_def split: option.splits prod.splits)

lemma effect_keeps_channels:
  "set (client_channels pg) \<subseteq> set (client_channels (conversation_effect inst conversationId pg))"
  by (auto simp: conversation_effect_def subscribeToMessages_def subscribeToTyping_def
      Let_def split: option.splits)

lemma navigate_holds_no_cleanup:
  "held_cleanup (navigate conversationId pg) = None"
  by (simp add: navigate_def Let_def effect_holds_no_cleanup)

lemma navigate_keeps_channels:
  assumes "held_cleanup pg = None"
  shows "set (client_channels pg) \<subseteq> set (client_channels (navigate conversationId pg))"
proof -
  have "navigate conversationId pg =
      conversation_effect (length (instances pg)) conversationId
        (pg\<lparr>instances := instances pg @ [initial_container],
            on_screen := length (instances pg)\<rparr>)"
    using assms by (simp add: navigate_def Let_def)
  with effect_keeps_channels
    [of "pg\<lparr>instances := instances pg @ [initial_container],
            on_screen := length (instances pg)\<rparr>" "length (instances pg)" conversationId]
  show ?thesis by simp
qed

text \<open>
  Claim C9 at a concrete input: the page of conversation \<open>c1\<close> is open and the user
  navigates to \<open>c2\<close>. The effect handed React no cleanup, so the unmount removes
  nothing: the channels of the \<open>c1\<close> instance stay subscribed next to those of the
  \<open>c2\<close> instance. An insert event for \<open>c1\<close> delivered afterwards still runs the
  callback of the \<open>c1\<close> instance; the sequence of the instance on screen stays empty.
\<close>

theorem previous_subscription_never_removed:
  "held_cleanup (open_page (Some (js ''c1''))) = None
   \<and> on_screen (navigate (Some (js ''c2'')) (open_page (Some (js ''c1'')))) = 1
   \<and> client_channels (navigate (Some (js ''c2'')) (open_page (Some (js ''c1'')))) =
     [(0, MessagesChannel (js ''c1'')), (0, TypingChannel (js ''c1'')),
      (1, MessagesChannel (js ''c2'')), (1, TypingChannel (js ''c2''))]
   \<and> msg_conversation_id hi_message = js ''c1''
   \<and> map messages (instances (insert_event_resolved None hi_message
       (navigate (Some (js ''c2'')) (open_page (Some (js ''c1'')))))) = [[hi_message], []]"
  by (simp add: open_page_def navigate_def conversation_effect_def subscribeToMessages_def
      subscribeToTyping_def insert_event_resolved_def fetchMessageWithUser_def
      fetchMessages_begin_def truthy_def Let_def scenario_defs)

end
